theory Spec2Isabelle
  imports Main
begin

section \<open>The command proxy of MultiAPI.py\<close>

text \<open>
  The module runs one \<^verbatim>\<open>API.API\<close> instance in a worker process (\<^verbatim>\<open>_runner\<close>) and
  forwards every method call of the facade (\<^verbatim>\<open>MultiAPI\<close>) to it through two
  multiprocessing queues, one call at a time under \<^verbatim>\<open>_exec_lock\<close>.

  The embedding is sequential state passing over one record that holds the facade's
  fields and the worker's state. Exceptions are values (\<open>Inl\<close> of a sum), and a call that
  blocks forever is \<open>None\<close>.
\<close>

subsection \<open>Values and exceptions\<close>

text \<open>Python values that travel through the queues. \<open>PyNone\<close> is \<^verbatim>\<open>None\<close>.\<close>

datatype pyval = PyNone | PyBool bool | PyInt int | PyStr string | PyList "pyval list"

text \<open>
  An exception instance: its class (\<open>kind\<close>) and its message. The exceptions of the
  model are instances of subclasses of \<^verbatim>\<open>Exception\<close>, the ones that the worker's
  \<^verbatim>\<open>except Exception\<close> clause catches.
\<close>

datatype exn = Exn (kind: string) (message: string)

definition APIError :: "string \<Rightarrow> exn" where
  "APIError m = Exn ''APIError'' m"

definition TimeoutError :: "string \<Rightarrow> exn" where
  "TimeoutError m = Exn ''TimeoutError'' m"

definition AttributeError :: "string \<Rightarrow> exn" where
  "AttributeError m = Exn ''AttributeError'' m"

definition KeyError :: "string \<Rightarrow> exn" where
  "KeyError m = Exn ''KeyError'' m"

definition ValueError :: "string \<Rightarrow> exn" where
  "ValueError m = Exn ''ValueError'' m"

definition RuntimeError :: "string \<Rightarrow> exn" where
  "RuntimeError m = Exn ''RuntimeError'' m"

text \<open>
  The outcome of a call that returns: \<open>Inl e\<close> when it raises \<open>e\<close>, \<open>Inr v\<close> when it
  returns \<open>v\<close>. A call that may block forever returns an option of that, paired with
  the state it leaves.
\<close>

type_synonym 'r result = "exn + 'r"

subsection \<open>The envelopes\<close>

text \<open>\<^verbatim>\<open>_Command(cmd, *args, **kwargs)\<close> and \<^verbatim>\<open>_CommandAck(exception=None, result=None, stacktrace="")\<close>.\<close>

record command =
  cmd :: string
  args :: "pyval list"
  kwargs :: "(string \<times> pyval) list"

record command_ack =
  exception :: "exn option"
  stacktrace :: string
  result :: pyval

definition Command :: "string \<Rightarrow> pyval list \<Rightarrow> (string \<times> pyval) list \<Rightarrow> command" where
  "Command c a k = \<lparr>cmd = c, args = a, kwargs = k\<rparr>"

definition CommandAck :: "exn option \<Rightarrow> pyval \<Rightarrow> string \<Rightarrow> command_ack" where
  "CommandAck e r st = \<lparr>exception = e, stacktrace = st, result = r\<rparr>"

subsection \<open>The lock\<close>

text \<open>
  \<^verbatim>\<open>threading.Lock\<close>, seen from the calling thread. The lock is free, or held by an
  acquisition of the calling thread that nothing has released, or held by another
  thread. For another thread the state tells when that thread lets go: \<open>Some d\<close> after
  \<open>d\<close> time units, \<open>None\<close> never. \<open>history\<close> records every call made on the lock
  object; it is not read by the program.
\<close>

datatype holder = Unlocked | Held_by_caller | Held_externally "nat option"

datatype lock_op = Acquire nat bool | Release

record lock =
  holder :: holder
  history :: "lock_op list"

text \<open>
  \<^verbatim>\<open>lock.acquire(timeout=t)\<close>: blocks for at most \<open>t\<close> time units and returns whether
  the lock was obtained. The lock is not reentrant: a thread that holds it waits like
  any other.
\<close>

fun acquire_holder :: "holder \<Rightarrow> nat \<Rightarrow> bool \<times> holder" where
  "acquire_holder Unlocked t = (True, Held_by_caller)"
| "acquire_holder Held_by_caller t = (False, Held_by_caller)"
| "acquire_holder (Held_externally None) t = (False, Held_externally None)"
| "acquire_holder (Held_externally (Some d)) t =
     (if d < t then (True, Held_by_caller) else (False, Held_externally (Some (d - t))))"

definition acquire :: "lock \<Rightarrow> nat \<Rightarrow> bool \<times> lock" where
  "acquire l t =
     (let (ok, h) = acquire_holder (holder l) t
      in (ok, \<lparr>holder = h, history = history l @ [Acquire t ok]\<rparr>))"

text \<open>\<^verbatim>\<open>lock.release()\<close>: raises RuntimeError on a lock that is not locked.\<close>

definition release :: "lock \<Rightarrow> exn + lock" where
  "release l =
     (if holder l = Unlocked then Inl (RuntimeError ''release unlocked lock'')
      else Inr \<lparr>holder = Unlocked, history = history l @ [Release]\<rparr>)"

definition new_lock :: lock where
  "new_lock = \<lparr>holder = Unlocked, history = []\<rparr>"

subsection \<open>The bounded-wait guard\<close>

text \<open>
  \<^verbatim>\<open>
  @contextmanager
  def acquire_with_timeout(lock, timeout):
      result = lock.acquire(timeout=timeout)
      yield result
      if result:
          lock.release()
  \<close>
  The lock lives in the state \<open>'s\<close> and is passed as the pair of its reader and its
  updater. \<open>body\<close> is the block of the \<^verbatim>\<open>with\<close> statement. When the block raises,
  the context manager throws the exception into the generator at the \<^verbatim>\<open>yield\<close>;
  nothing catches it there, so it leaves the generator at once and the statements after
  the \<^verbatim>\<open>yield\<close> do not run.
\<close>

definition acquire_with_timeout ::
  "('s \<Rightarrow> lock) \<Rightarrow> ((lock \<Rightarrow> lock) \<Rightarrow> 's \<Rightarrow> 's) \<Rightarrow> nat \<Rightarrow>
   (bool \<Rightarrow> 's \<Rightarrow> ('r result \<times> 's) option) \<Rightarrow> 's \<Rightarrow> ('r result \<times> 's) option" where
  "acquire_with_timeout get_lock upd_lock timeout body s =
     (let (result, l1) = acquire (get_lock s) timeout;
          s1 = upd_lock (\<lambda>_. l1) s
      in case body result s1 of
           None \<Rightarrow> None
         | Some (Inl e, s2) \<Rightarrow> Some (Inl e, s2)
         | Some (Inr v, s2) \<Rightarrow>
             (if result then
                (case release (get_lock s2) of
                   Inl e \<Rightarrow> Some (Inl e, s2)
                 | Inr l2 \<Rightarrow> Some (Inr v, upd_lock (\<lambda>_. l2) s2))
              else Some (Inr v, s2)))"

subsection \<open>The queues\<close>

text \<open>
  \<^verbatim>\<open>multiprocessing.Queue\<close>: a FIFO channel between the two processes. \<open>items\<close> is
  what is in the channel, oldest first. \<open>closed\<close> is the flag that \<^verbatim>\<open>close()\<close>
  sets on the facade's handle; the worker has its own handle, which the program never
  closes. \<open>sent\<close> and \<open>received\<close> record everything ever put and everything ever
  taken out; they are not read by the program.
\<close>

record 'a queue =
  items :: "'a list"
  closed :: bool
  sent :: "'a list"
  received :: "'a list"

definition new_queue :: "'a queue" where
  "new_queue = \<lparr>items = [], closed = False, sent = [], received = []\<rparr>"

definition enqueue :: "'a \<Rightarrow> 'a queue \<Rightarrow> 'a queue" where
  "enqueue x q = q\<lparr>items := items q @ [x], sent := sent q @ [x]\<rparr>"

text \<open>Taking the oldest item out; \<open>None\<close> when there is none, where a reader blocks.\<close>

definition dequeue :: "'a queue \<Rightarrow> ('a \<times> 'a queue) option" where
  "dequeue q =
     (case items q of
        [] \<Rightarrow> None
      | x # xs \<Rightarrow> Some (x, q\<lparr>items := xs, received := received q @ [x]\<rparr>))"

text \<open>\<^verbatim>\<open>Queue.put(obj)\<close> on the facade's handle: raises ValueError once the handle is closed.\<close>

definition put :: "'a \<Rightarrow> 'a queue \<Rightarrow> exn + 'a queue" where
  "put x q = (if closed q then Inl (ValueError ''Queue is closed'') else Inr (enqueue x q))"

definition close :: "'a queue \<Rightarrow> 'a queue" where
  "close q = q\<lparr>closed := True\<rparr>"

subsection \<open>The Target API\<close>

text \<open>
  \<^verbatim>\<open>API.py\<close> is not among the sources, so the class \<^verbatim>\<open>API.API\<close> is a parameter
  \<open>T\<close> of the model, of state type \<open>'a\<close>, seen through the things the module asks
  of it:
  \<^item> \<open>class_attrs\<close>: the names \<open>n\<close> with \<^verbatim>\<open>hasattr(API.API, n)\<close>;
  \<^item> \<open>construct\<close>: the constructor \<^verbatim>\<open>API.API(device_family, jlink_arm_dll_path, log=..., log_str=..., log_file_path=...)\<close>;
  \<^item> \<open>api_functions\<close>: the dictionary \<^verbatim>\<open>dict(inspect.getmembers(api, inspect.ismethod))\<close>
    of the bound methods of the instance;
  \<^item> \<open>new_exception\<close>: the constructors of the exception classes that the module of
    the class defines. \<open>new_exception T K m\<close> is the call \<^verbatim>\<open>K(m)\<close> of the class named
    \<open>K\<close> on the argument \<open>m\<close>: \<open>Inr m'\<close> when it builds an instance, whose message
    is then \<open>m'\<close>, and \<open>Inl e\<close> when the constructor raises \<open>e\<close>.
  A method call returns a value or raises an exception; with the exception comes the
  text of the stack frames below the worker's own, from which \<^verbatim>\<open>traceback.format_exc()\<close>
  builds the diagnostic trace.
\<close>

datatype outcome = Returned pyval | Raised exn string

record params =
  device_family :: pyval
  jlink_arm_dll_path :: pyval
  log :: pyval
  log_str :: pyval
  log_file_path :: pyval

record 'a target =
  class_attrs :: "string list"
  construct :: "params \<Rightarrow> exn + 'a"
  api_functions :: "string \<Rightarrow> (pyval list \<Rightarrow> (string \<times> pyval) list \<Rightarrow> 'a \<Rightarrow> outcome \<times> 'a) option"
  new_exception :: "string \<Rightarrow> string \<Rightarrow> exn + string"

text \<open>
  \<^verbatim>\<open>traceback.format_exc()\<close> inside the handler of the worker: the header, the frame of
  the worker's call, the frames below it, and the line of the exception.
\<close>

definition runner_frame :: string where
  "runner_frame = ''  File MultiAPI.py, line 160, in _runner'' @ [CHR 0x0A]"

definition format_exc :: "string \<Rightarrow> exn \<Rightarrow> string" where
  "format_exc frames e =
     ''Traceback (most recent call last):'' @ [CHR 0x0A] @ runner_frame @ frames
       @ kind e @ '': '' @ message e @ [CHR 0x0A]"

subsection \<open>What the queue does to an acknowledgement\<close>

text \<open>
  \<^verbatim>\<open>multiprocessing.Queue\<close> pickles an object when it is put and unpickles it inside
  \<^verbatim>\<open>get()\<close>, in the process that takes it out. Values and commands, which hold a
  name and values, come out as they went in. An exception instance is pickled as its
  class and its arguments and comes out as the instance that the class builds from
  those arguments, \<^verbatim>\<open>cls(*args)\<close>: for the classes of Python itself listed below,
  whose constructor keeps the arguments, that is the instance that went in; for a class
  of the Target API it is what \<open>new_exception\<close> says, an instance whose message the
  constructor has built anew, or an error raised by the constructor, which then leaves
  \<^verbatim>\<open>get()\<close>.
\<close>

definition python_exceptions :: "string list" where
  "python_exceptions =
     [''KeyError'', ''TypeError'', ''ValueError'', ''ZeroDivisionError'', ''RuntimeError'',
      ''AttributeError'', ''IndexError'']"

definition loads_exn :: "'a target \<Rightarrow> exn \<Rightarrow> exn + exn" where
  "loads_exn T e =
     (if kind e \<in> set python_exceptions then Inr e
      else
        (case new_exception T (kind e) (message e) of
           Inl err \<Rightarrow> Inl err
         | Inr m \<Rightarrow> Inr (Exn (kind e) m)))"

definition loads_ack :: "'a target \<Rightarrow> command_ack \<Rightarrow> exn + command_ack" where
  "loads_ack T ack =
     (case exception ack of
        None \<Rightarrow> Inr ack
      | Some e \<Rightarrow>
          (case loads_exn T e of
             Inl err \<Rightarrow> Inl err
           | Inr e' \<Rightarrow> Inr (ack\<lparr>exception := Some e'\<rparr>)))"

subsection \<open>The facade and its worker\<close>

text \<open>
  The worker process: running, with the \<^verbatim>\<open>API.API\<close> instance it owns, or stopped
  (terminated by the facade, or dead because the constructor of the instance raised).
\<close>

datatype 'a process = Running 'a | Stopped

record 'a multiapi =
  CmdQueue :: "command queue"
  CmdAckQueue :: "command_ack queue"
  runner_process :: "'a process"
  terminated :: bool
  exec_lock :: lock
  stdout :: "string list"

text \<open>
  \<^verbatim>\<open>__init__\<close>: the two queues, the worker process (which starts by \<^verbatim>\<open>_api_setup\<close>),
  the flag and the lock. \<^verbatim>\<open>DEBUG_OUTPUT\<close> is \<^verbatim>\<open>False\<close>, so \<^verbatim>\<open>log\<close> is passed on
  as given.
\<close>

definition api_setup :: "'a target \<Rightarrow> params \<Rightarrow> exn + 'a" where
  "api_setup T p = construct T p"

definition init :: "'a target \<Rightarrow> params \<Rightarrow> 'a multiapi" where
  "init T p =
     \<lparr>CmdQueue = new_queue,
      CmdAckQueue = new_queue,
      runner_process = (case api_setup T p of Inl e \<Rightarrow> Stopped | Inr api \<Rightarrow> Running api),
      terminated = False,
      exec_lock = new_lock,
      stdout = []\<rparr>"

text \<open>
  The body of the worker's loop after \<^verbatim>\<open>cmd = self._CmdQueue.get()\<close>:
  \<^verbatim>\<open>
  try:
      res = api_functions[cmd.cmd](*cmd.args, **cmd.kwargs)
  except Exception as e:
      self._CmdAckQueue.put(_CommandAck(exception=e, stacktrace=traceback.format_exc()))
  else:
      self._CmdAckQueue.put(_CommandAck(result=res))
  \<close>
  \<open>invoke\<close> is the statement under \<^verbatim>\<open>try\<close>: the lookup in the dictionary, which
  raises KeyError for a name that is not a key, then the call. \<open>serve\<close> gives the
  acknowledgement that is put and the new state of the instance.
\<close>

definition invoke :: "'a target \<Rightarrow> command \<Rightarrow> 'a \<Rightarrow> outcome \<times> 'a" where
  "invoke T c api =
     (case api_functions T (cmd c) of
        None \<Rightarrow> (Raised (KeyError (cmd c)) [], api)
      | Some f \<Rightarrow> f (args c) (kwargs c) api)"

definition serve :: "'a target \<Rightarrow> command \<Rightarrow> 'a \<Rightarrow> command_ack \<times> 'a" where
  "serve T c api =
     (case invoke T c api of
        (Raised e frames, api') \<Rightarrow> (CommandAck (Some e) PyNone (format_exc frames e), api')
      | (Returned res, api') \<Rightarrow> (CommandAck None res [], api'))"

text \<open>
  \<^verbatim>\<open>_runner\<close>: \<^verbatim>\<open>while True\<close>, take a command, serve it, put the acknowledgement.
  The loop has no exit. \<open>runner T s\<close> is the state in which the worker next blocks on
  an empty command queue, or \<open>s\<close> itself when the process is stopped.
\<close>

function runner :: "'a target \<Rightarrow> 'a multiapi \<Rightarrow> 'a multiapi" where
  "runner T s =
     (case runner_process s of
        Stopped \<Rightarrow> s
      | Running api \<Rightarrow>
          (case dequeue (CmdQueue s) of
             None \<Rightarrow> s
           | Some (c, q) \<Rightarrow>
               runner T (s\<lparr>CmdQueue := q,
                           runner_process := Running (snd (serve T c api)),
                           CmdAckQueue := enqueue (fst (serve T c api)) (CmdAckQueue s)\<rparr>)))"
  by pat_completeness auto
termination
  by (relation "measure (\<lambda>(T, s). length (items (CmdQueue s)))")
     (auto simp: dequeue_def split: list.splits)

declare runner.simps [simp del]

subsection \<open>The operations of the facade\<close>

text \<open>\<^verbatim>\<open>is_alive\<close>: \<^verbatim>\<open>return not self._terminated\<close>.\<close>

definition is_alive :: "'a multiapi \<Rightarrow> bool" where
  "is_alive s = (\<not> terminated s)"

text \<open>
  \<^verbatim>\<open>
  def terminate(self):
      if self.is_alive():
          self._runner_process.terminate()
          self._CmdQueue.close()
          self._CmdAckQueue.close()
          self._runner_process.join()
          self._CmdAckQueue.join_thread()
          self._CmdQueue.join_thread()
          self._terminated = True
  \<close>
  \<open>stop_worker\<close> is the block up to the last \<^verbatim>\<open>join_thread\<close>: the process is
  terminated and both queues are closed; the joins change nothing more. It leaves the
  state that another thread sees while \<^verbatim>\<open>terminate\<close> waits in its joins, before the
  flag is set. None of the calls raises in that order, so the result of \<open>terminate\<close>
  is always \<open>Inr ()\<close>.
\<close>

definition stop_worker :: "'a multiapi \<Rightarrow> 'a multiapi" where
  "stop_worker s =
     s\<lparr>runner_process := Stopped,
       CmdQueue := close (CmdQueue s),
       CmdAckQueue := close (CmdAckQueue s)\<rparr>"

definition terminate :: "'a multiapi \<Rightarrow> unit result \<times> 'a multiapi" where
  "terminate s =
     (if is_alive s then (Inr (), (stop_worker s)\<lparr>terminated := True\<rparr>)
      else (Inr (), s))"

text \<open>
  \<^verbatim>\<open>self._CmdQueue.put(...)\<close> and the blocking \<^verbatim>\<open>self._CmdAckQueue.get()\<close> of the
  facade. While the caller blocks in \<^verbatim>\<open>get\<close>, the worker runs until it blocks itself;
  then the caller takes the oldest acknowledgement out of the channel and unpickles it,
  and waits forever when there is none. An error of the unpickling leaves \<^verbatim>\<open>get\<close>
  after the acknowledgement is out of the channel. \<^verbatim>\<open>get\<close> on a closed handle
  raises ValueError.
\<close>

definition CmdQueue_put :: "command \<Rightarrow> 'a multiapi \<Rightarrow> unit result \<times> 'a multiapi" where
  "CmdQueue_put c s =
     (case put c (CmdQueue s) of
        Inl e \<Rightarrow> (Inl e, s)
      | Inr q \<Rightarrow> (Inr (), s\<lparr>CmdQueue := q\<rparr>))"

definition CmdAckQueue_get :: "'a target \<Rightarrow> 'a multiapi \<Rightarrow> (command_ack result \<times> 'a multiapi) option" where
  "CmdAckQueue_get T s =
     (if closed (CmdAckQueue s) then Some (Inl (ValueError ''Queue is closed''), s)
      else
        (let s1 = runner T s
         in case dequeue (CmdAckQueue s1) of
              None \<Rightarrow> None
            | Some (ack, q) \<Rightarrow>
                (case loads_ack T ack of
                   Inl err \<Rightarrow> Some (Inl err, s1\<lparr>CmdAckQueue := q\<rparr>)
                 | Inr ack' \<Rightarrow> Some (Inr ack', s1\<lparr>CmdAckQueue := q\<rparr>))))"

text \<open>
  \<^verbatim>\<open>
  def _execute(self, func_name, *args, **kwargs):
      if not self.is_alive():
          raise API.APIError("Runner process terminated, API is unavailable.")
      with acquire_with_timeout(self._exec_lock, 10) as acquired:
          if acquired:
              self._CmdQueue.put(_Command(func_name, *args, **kwargs))
              ack = self._CmdAckQueue.get()
          else:
              raise TimeoutError("CmdQueue is full and was not cleared in 10 seconds!")
      if ack.exception is not None:
          print(ack.stacktrace)
          raise ack.exception
      if ack.result is not None:
          return ack.result
  \<close>
  \<open>execute_body\<close> is the block of the \<^verbatim>\<open>with\<close> statement; its value is \<^verbatim>\<open>ack\<close>.
\<close>

definition execute_body ::
  "'a target \<Rightarrow> string \<Rightarrow> pyval list \<Rightarrow> (string \<times> pyval) list \<Rightarrow> bool \<Rightarrow> 'a multiapi \<Rightarrow>
   (command_ack result \<times> 'a multiapi) option" where
  "execute_body T func_name as kws acquired s =
     (if acquired then
        (case CmdQueue_put (Command func_name as kws) s of
           (Inl e, s1) \<Rightarrow> Some (Inl e, s1)
         | (Inr _, s1) \<Rightarrow> CmdAckQueue_get T s1)
      else Some (Inl (TimeoutError ''CmdQueue is full and was not cleared in 10 seconds!''), s))"

definition execute ::
  "'a target \<Rightarrow> string \<Rightarrow> pyval list \<Rightarrow> (string \<times> pyval) list \<Rightarrow> 'a multiapi \<Rightarrow>
   (pyval result \<times> 'a multiapi) option" where
  "execute T func_name as kws s =
     (if \<not> is_alive s then
        Some (Inl (APIError ''Runner process terminated, API is unavailable.''), s)
      else
        (case acquire_with_timeout exec_lock exec_lock_update 10 (execute_body T func_name as kws) s of
           None \<Rightarrow> None
         | Some (Inl e, s1) \<Rightarrow> Some (Inl e, s1)
         | Some (Inr ack, s1) \<Rightarrow>
             (case exception ack of
                Some e \<Rightarrow> Some (Inl e, s1\<lparr>stdout := stdout s1 @ [stacktrace ack]\<rparr>)
              | None \<Rightarrow>
                  (if result ack \<noteq> PyNone then Some (Inr (result ack), s1)
                   else Some (Inr PyNone, s1)))))"

text \<open>
  \<^verbatim>\<open>
  def __getattr__(self, name):
      if hasattr(API.API, name):
          return lambda *args, **kwargs: self._execute(name, *args, **kwargs)
      else:
          raise AttributeError("'MultiAPI' object has no attribute '{}'".format(name))
  \<close>
  Python calls \<^verbatim>\<open>__getattr__\<close> for the names that the facade does not define itself.
  The value returned is the closure, a function of the arguments and the state.
\<close>

definition quoted :: "string \<Rightarrow> string" where
  "quoted n = [CHR 0x27] @ n @ [CHR 0x27]"

type_synonym 'a callable =
  "pyval list \<Rightarrow> (string \<times> pyval) list \<Rightarrow> 'a multiapi \<Rightarrow> (pyval result \<times> 'a multiapi) option"

definition getattr :: "'a target \<Rightarrow> string \<Rightarrow> 'a multiapi \<Rightarrow> 'a callable result \<times> 'a multiapi" where
  "getattr T name s =
     (if name \<in> set (class_attrs T) then (Inr (\<lambda>as kws. execute T name as kws), s)
      else (Inl (AttributeError (quoted ''MultiAPI'' @ '' object has no attribute '' @ quoted name)), s))"

text \<open>A method call on the facade, \<^verbatim>\<open>self.name(*args, **kwargs)\<close>: the attribute, then the call.\<close>

definition call_method ::
  "'a target \<Rightarrow> string \<Rightarrow> pyval list \<Rightarrow> (string \<times> pyval) list \<Rightarrow> 'a multiapi \<Rightarrow>
   (pyval result \<times> 'a multiapi) option" where
  "call_method T name as kws s =
     (case getattr T name s of
        (Inl e, s1) \<Rightarrow> Some (Inl e, s1)
      | (Inr f, s1) \<Rightarrow> f as kws s1)"

text \<open>
  \<^verbatim>\<open>__enter__\<close>: \<^verbatim>\<open>self.open()\<close>. \<^verbatim>\<open>__exit__\<close>: \<^verbatim>\<open>self.close()\<close>, then
  \<^verbatim>\<open>self.terminate()\<close>; when \<^verbatim>\<open>close\<close> raises, \<^verbatim>\<open>terminate\<close> is not reached.
\<close>

definition enter :: "'a target \<Rightarrow> 'a multiapi \<Rightarrow> (unit result \<times> 'a multiapi) option" where
  "enter T s =
     (case call_method T ''open'' [] [] s of
        None \<Rightarrow> None
      | Some (Inl e, s1) \<Rightarrow> Some (Inl e, s1)
      | Some (Inr _, s1) \<Rightarrow> Some (Inr (), s1))"

definition exit :: "'a target \<Rightarrow> 'a multiapi \<Rightarrow> (unit result \<times> 'a multiapi) option" where
  "exit T s =
     (case call_method T ''close'' [] [] s of
        None \<Rightarrow> None
      | Some (Inl e, s1) \<Rightarrow> Some (Inl e, s1)
      | Some (Inr _, s1) \<Rightarrow> Some (terminate s1))"

subsection \<open>Sessions of one thread\<close>

text \<open>
  A call of one thread on the facade, and a sequence of them. A caller that catches the
  exception of a call goes on with the next one, so \<open>step\<close> keeps the state only; the
  sequence stops (\<open>None\<close>) where a call never returns.
\<close>

datatype facade_op =
    Getattr string
  | Is_alive
  | Terminate
  | Execute string "pyval list" "(string \<times> pyval) list"
  | Call string "pyval list" "(string \<times> pyval) list"
  | Enter
  | Exit

fun step :: "'a target \<Rightarrow> facade_op \<Rightarrow> 'a multiapi \<Rightarrow> 'a multiapi option" where
  "step T (Getattr n) s = Some (snd (getattr T n s))"
| "step T Is_alive s = Some s"
| "step T Terminate s = Some (snd (terminate s))"
| "step T (Execute n as kws) s = map_option snd (execute T n as kws s)"
| "step T (Call n as kws) s = map_option snd (call_method T n as kws s)"
| "step T Enter s = map_option snd (enter T s)"
| "step T Exit s = map_option snd (exit T s)"

fun run :: "'a target \<Rightarrow> facade_op list \<Rightarrow> 'a multiapi \<Rightarrow> 'a multiapi option" where
  "run T [] s = Some s"
| "run T (f # fs) s = (case step T f s of None \<Rightarrow> None | Some s1 \<Rightarrow> run T fs s1)"


text \<open>
  The facade between two calls of a live session: not terminated, the lock free (or
  given up by another thread within the bound of 10), both queues open and empty, the
  worker running.
\<close>

definition quiescent :: "'a multiapi \<Rightarrow> bool" where
  "quiescent s \<longleftrightarrow>
     \<not> terminated s \<and> fst (acquire_holder (holder (exec_lock s)) 10) \<and>
     items (CmdQueue s) = [] \<and> \<not> closed (CmdQueue s) \<and>
     items (CmdAckQueue s) = [] \<and> \<not> closed (CmdAckQueue s) \<and>
     runner_process s \<noteq> Stopped"

subsection \<open>The behaviour the specification describes\<close>

text \<open>
  The operations of a list of commands made on the instance directly, in the order of
  the list, each on the state the one before left: their outcomes and the last state.
\<close>

fun invoke_all :: "'a target \<Rightarrow> command list \<Rightarrow> 'a \<Rightarrow> outcome list \<times> 'a" where
  "invoke_all T [] api = ([], api)"
| "invoke_all T (c # cs) api =
     (case invoke T c api of
        (out, api1) \<Rightarrow> (case invoke_all T cs api1 of (outs, api2) \<Rightarrow> (out # outs, api2)))"

text \<open>
  The acknowledgement of an outcome as the specification words it: the returned value
  on a normal return, the error and its diagnostic trace on a raised error.
\<close>

fun ack_for :: "outcome \<Rightarrow> command_ack" where
  "ack_for (Returned v) = \<lparr>exception = None, stacktrace = [], result = v\<rparr>"
| "ack_for (Raised e frames) = \<lparr>exception = Some e, stacktrace = format_exc frames e, result = PyNone\<rparr>"


text \<open>
  The state that a call leaves when the worker answered it with outcome \<open>out\<close> and
  went on with the instance in state \<open>api'\<close>: the command and its acknowledgement have
  passed through the queues, the lock was taken and given back, and the trace of an
  error was printed.
\<close>

definition after_call :: "command \<Rightarrow> outcome \<Rightarrow> 'a \<Rightarrow> 'a multiapi \<Rightarrow> 'a multiapi" where
  "after_call c out api' s =
     s\<lparr>CmdQueue := (CmdQueue s)\<lparr>sent := sent (CmdQueue s) @ [c], received := received (CmdQueue s) @ [c]\<rparr>,
       CmdAckQueue := (CmdAckQueue s)
         \<lparr>sent := sent (CmdAckQueue s) @ [ack_for out], received := received (CmdAckQueue s) @ [ack_for out]\<rparr>,
       runner_process := Running api',
       exec_lock := \<lparr>holder = Unlocked, history = history (exec_lock s) @ [Acquire 10 True, Release]\<rparr>,
       stdout := stdout s @ (case out of Returned v \<Rightarrow> [] | Raised e frames \<Rightarrow> [format_exc frames e])\<rparr>"

text \<open>
  What the caller of the forwarded call sees of an outcome: the value; the error as the
  queue rebuilt it; or the error that the rebuilding raised. \<open>survives\<close> says that the
  acknowledgement of the outcome can be unpickled, \<open>faithful\<close> that it comes out as it
  went in.
\<close>

fun seen_through_queue :: "'a target \<Rightarrow> outcome \<Rightarrow> pyval result" where
  "seen_through_queue T (Returned v) = Inr v"
| "seen_through_queue T (Raised e frames) =
     (case loads_exn T e of Inl err \<Rightarrow> Inl err | Inr e' \<Rightarrow> Inl e')"

fun survives :: "'a target \<Rightarrow> outcome \<Rightarrow> bool" where
  "survives T (Returned v) = True"
| "survives T (Raised e frames) = (case loads_exn T e of Inl err \<Rightarrow> False | Inr e' \<Rightarrow> True)"


text \<open>
  The state that a call leaves when the acknowledgement of the worker could not be
  unpickled: the command and the acknowledgement have passed through the queues, and
  the error left \<^verbatim>\<open>get\<close> inside the guarded block, so the lock is as the acquisition
  left it and nothing was printed. \<open>after_execute\<close> is the one or the other.
\<close>

definition after_broken_call :: "command \<Rightarrow> outcome \<Rightarrow> 'a \<Rightarrow> 'a multiapi \<Rightarrow> 'a multiapi" where
  "after_broken_call c out api' s =
     s\<lparr>CmdQueue := (CmdQueue s)\<lparr>sent := sent (CmdQueue s) @ [c], received := received (CmdQueue s) @ [c]\<rparr>,
       CmdAckQueue := (CmdAckQueue s)
         \<lparr>sent := sent (CmdAckQueue s) @ [ack_for out], received := received (CmdAckQueue s) @ [ack_for out]\<rparr>,
       runner_process := Running api',
       exec_lock := \<lparr>holder = Held_by_caller, history = history (exec_lock s) @ [Acquire 10 True]\<rparr>\<rparr>"

definition after_execute :: "'a target \<Rightarrow> command \<Rightarrow> outcome \<Rightarrow> 'a \<Rightarrow> 'a multiapi \<Rightarrow> 'a multiapi" where
  "after_execute T c out api' s =
     (if survives T out then after_call c out api' s else after_broken_call c out api' s)"

subsection \<open>An example Target API\<close>

text \<open>
  A small instance of the parameter for the concrete evaluations below: one memory word
  as state, the methods \<^verbatim>\<open>open\<close>, \<^verbatim>\<open>close\<close>, \<^verbatim>\<open>read_u32\<close>, \<^verbatim>\<open>write_u32\<close> and
  \<^verbatim>\<open>divide\<close>, and two attributes of the class that are not methods of an instance: a
  class constant, and \<^verbatim>\<open>mro\<close>, which every Python class has.

  Two more methods raise errors of classes of the example's own:
  \<^verbatim>\<open>
  class DeviceError(Exception):
      def __init__(self, err_code):
          Exception.__init__(self, 'An error was reported: {}.'.format(err_code))

  class ProbeError(Exception):
      def __init__(self, snr, reason):
          Exception.__init__(self, reason)
  \<close>
  \<^verbatim>\<open>recover\<close> raises \<^verbatim>\<open>DeviceError(-3)\<close> and \<^verbatim>\<open>connect_to_emu_with_snr\<close> raises
  \<^verbatim>\<open>ProbeError(snr, 'probe not found')\<close>. Each instance has one argument, its message;
  called on it, the first constructor formats it once more and the second misses an
  argument.
\<close>

definition example_new_exception :: "string \<Rightarrow> string \<Rightarrow> exn + string" where
  "example_new_exception K m =
     (if K = ''DeviceError'' then Inr (''An error was reported: '' @ m @ ''.'')
      else if K = ''ProbeError'' then
        Inl (Exn ''TypeError'' ''__init__() missing 1 required positional argument'')
      else Inr m)"

definition example_frames :: string where
  "example_frames = ''  File API.py, in divide'' @ [CHR 0x0A]"

fun example_read_u32 :: "pyval list \<Rightarrow> (string \<times> pyval) list \<Rightarrow> int \<Rightarrow> outcome \<times> int" where
  "example_read_u32 [] [] api = (Returned (PyInt api), api)"
| "example_read_u32 as kws api = (Raised (Exn ''TypeError'' ''read_u32() takes no arguments'') [], api)"

fun example_write_u32 :: "pyval list \<Rightarrow> (string \<times> pyval) list \<Rightarrow> int \<Rightarrow> outcome \<times> int" where
  "example_write_u32 [PyInt v] [] api = (Returned PyNone, v)"
| "example_write_u32 as kws api = (Raised (Exn ''TypeError'' ''write_u32() takes one int'') [], api)"

fun example_divide :: "pyval list \<Rightarrow> (string \<times> pyval) list \<Rightarrow> int \<Rightarrow> outcome \<times> int" where
  "example_divide [PyInt a, PyInt b] [] api =
     (if b = 0 then (Raised (Exn ''ZeroDivisionError'' ''division by zero'') example_frames, api)
      else (Returned (PyInt (a div b)), api))"
| "example_divide as kws api = (Raised (Exn ''TypeError'' ''divide() takes two ints'') [], api)"

definition example_api :: "int target" where
  "example_api =
     \<lparr>class_attrs = [''open'', ''close'', ''read_u32'', ''write_u32'', ''divide'',
                     ''recover'', ''connect_to_emu_with_snr'',
                     ''_DEFAULT_JLINK_SPEED_KHZ'', ''mro''],
      construct = (\<lambda>p. Inr 42),
      api_functions = map_of
        [(''open'', \<lambda>as kws api. (Returned PyNone, api)),
         (''close'', \<lambda>as kws api. (Returned PyNone, api)),
         (''read_u32'', example_read_u32),
         (''write_u32'', example_write_u32),
         (''divide'', example_divide),
         (''recover'', \<lambda>as kws api.
            (Raised (Exn ''DeviceError'' ''An error was reported: -3.'') [], api)),
         (''connect_to_emu_with_snr'', \<lambda>as kws api.
            (Raised (Exn ''ProbeError'' ''probe not found'') [], api))],
      new_exception = example_new_exception\<rparr>"

definition example_params :: params where
  "example_params =
     \<lparr>device_family = PyStr ''NRF52'', jlink_arm_dll_path = PyNone, log = PyBool False,
      log_str = PyNone, log_file_path = PyNone\<rparr>"

section \<open>Properties\<close>

subsection \<open>The worker loop\<close>

lemma runner_stopped: "runner_process s = Stopped \<Longrightarrow> runner T s = s"
  by (subst runner.simps) simp

lemma runner_blocked: "items (CmdQueue s) = [] \<Longrightarrow> runner T s = s"
  by (subst runner.simps) (simp add: dequeue_def split: process.splits)

lemma runner_iteration:
  "runner_process s = Running api \<Longrightarrow> items (CmdQueue s) = c # cs \<Longrightarrow>
   runner T s =
     runner T (s\<lparr>CmdQueue := (CmdQueue s)\<lparr>items := cs, received := received (CmdQueue s) @ [c]\<rparr>,
                 runner_process := Running (snd (serve T c api)),
                 CmdAckQueue := enqueue (fst (serve T c api)) (CmdAckQueue s)\<rparr>)"
  by (subst runner.simps) (simp add: dequeue_def)

lemma serve_invoke: "serve T c api = (ack_for (fst (invoke T c api)), snd (invoke T c api))"
  by (cases "invoke T c api"; cases "fst (invoke T c api)") (auto simp: serve_def CommandAck_def)

lemma invoke_all_Cons:
  "invoke_all T (c # cs) api =
     (fst (invoke T c api) # fst (invoke_all T cs (snd (invoke T c api))),
      snd (invoke_all T cs (snd (invoke T c api))))"
  by (simp split: prod.splits)

lemma length_invoke_all: "length (fst (invoke_all T cs api)) = length cs"
  by (induction cs arbitrary: api) (simp_all add: invoke_all_Cons del: invoke_all.simps(2))

text \<open>
  The whole loop in one equation: from a running worker, every queued command is taken
  out in order, served on the state its predecessor left, and acknowledged.
\<close>

lemma runner_all:
  "runner_process s = Running api \<Longrightarrow>
   runner T s =
     s\<lparr>CmdQueue := (CmdQueue s)\<lparr>items := [], received := received (CmdQueue s) @ items (CmdQueue s)\<rparr>,
       runner_process := Running (snd (invoke_all T (items (CmdQueue s)) api)),
       CmdAckQueue := (CmdAckQueue s)
         \<lparr>items := items (CmdAckQueue s) @ map ack_for (fst (invoke_all T (items (CmdQueue s)) api)),
          sent := sent (CmdAckQueue s) @ map ack_for (fst (invoke_all T (items (CmdQueue s)) api))\<rparr>\<rparr>"
proof (induction "items (CmdQueue s)" arbitrary: s api)
  case Nil
  then show ?case
    by (simp add: runner_blocked[of s T] Nil.hyps[symmetric])
next
  case (Cons c cs)
  let ?s1 = "s\<lparr>CmdQueue := (CmdQueue s)\<lparr>items := cs, received := received (CmdQueue s) @ [c]\<rparr>,
                 runner_process := Running (snd (serve T c api)),
                 CmdAckQueue := enqueue (fst (serve T c api)) (CmdAckQueue s)\<rparr>"
  have it: "items (CmdQueue s) = c # cs"
    using Cons.hyps(2) by simp
  have first: "runner T s = runner T ?s1"
    using Cons.prems it by (rule runner_iteration)
  have "cs = items (CmdQueue ?s1)"
    by simp
  moreover have "runner_process ?s1 = Running (snd (serve T c api))"
    by simp
  ultimately have rest: "runner T ?s1 =
      ?s1\<lparr>CmdQueue := (CmdQueue ?s1)\<lparr>items := [], received := received (CmdQueue ?s1) @ items (CmdQueue ?s1)\<rparr>,
       runner_process := Running (snd (invoke_all T (items (CmdQueue ?s1)) (snd (serve T c api)))),
       CmdAckQueue := (CmdAckQueue ?s1)
         \<lparr>items := items (CmdAckQueue ?s1) @ map ack_for (fst (invoke_all T (items (CmdQueue ?s1)) (snd (serve T c api)))),
          sent := sent (CmdAckQueue ?s1) @ map ack_for (fst (invoke_all T (items (CmdQueue ?s1)) (snd (serve T c api))))\<rparr>\<rparr>"
    by (rule Cons.hyps(1))
  show ?case
    unfolding first rest
    by (simp add: it serve_invoke enqueue_def split: prod.splits)
qed

lemma terminated_runner: "terminated (runner T s) = terminated s"
proof (cases "runner_process s")
  case (Running api)
  then show ?thesis by (simp add: runner_all[of s api T])
next
  case Stopped
  then show ?thesis by (simp add: runner_stopped)
qed

subsection \<open>One call on a quiescent facade\<close>

lemma loads_python_exception: "kind e \<in> set python_exceptions \<Longrightarrow> loads_exn T e = Inr e"
  by (simp add: loads_exn_def)

lemma loads_KeyError: "loads_exn T (KeyError n) = Inr (KeyError n)"
  by (simp add: loads_exn_def KeyError_def python_exceptions_def)

lemma kind_loads_exn: "loads_exn T e = Inr e' \<Longrightarrow> kind e' = kind e"
  by (auto simp: loads_exn_def split: if_splits sum.splits)



lemma get_after_put:
  assumes "runner_process s = Running api" "items (CmdQueue s) = [c]" "items (CmdAckQueue s) = []"
    "\<not> closed (CmdAckQueue s)"
  shows "CmdAckQueue_get T s =
    (case loads_ack T (ack_for (fst (invoke T c api))) of
       Inl err \<Rightarrow> Some (Inl err,
         s\<lparr>CmdQueue := (CmdQueue s)\<lparr>items := [], received := received (CmdQueue s) @ [c]\<rparr>,
           runner_process := Running (snd (invoke T c api)),
           CmdAckQueue := (CmdAckQueue s)
             \<lparr>sent := sent (CmdAckQueue s) @ [ack_for (fst (invoke T c api))],
              received := received (CmdAckQueue s) @ [ack_for (fst (invoke T c api))]\<rparr>\<rparr>)
     | Inr a \<Rightarrow> Some (Inr a,
         s\<lparr>CmdQueue := (CmdQueue s)\<lparr>items := [], received := received (CmdQueue s) @ [c]\<rparr>,
           runner_process := Running (snd (invoke T c api)),
           CmdAckQueue := (CmdAckQueue s)
             \<lparr>sent := sent (CmdAckQueue s) @ [ack_for (fst (invoke T c api))],
              received := received (CmdAckQueue s) @ [ack_for (fst (invoke T c api))]\<rparr>\<rparr>))"
  using assms
  by (simp add: CmdAckQueue_get_def runner_all[of s api T] dequeue_def split: prod.splits sum.splits)

lemma acquire_holder_success: "fst (acquire_holder h t) \<Longrightarrow> acquire_holder h t = (True, Held_by_caller)"
  by (induction h t rule: acquire_holder.induct) (simp_all split: if_splits)

text \<open>
  One call from a facade that is ready for it: the caller sees the outcome of the
  operation as the queue hands it over, and the state is the one of \<open>after_execute\<close>.
\<close>

lemma execute_quiescent:
  assumes q: "quiescent s" and r: "runner_process s = Running api"
  shows "execute T n as kws s =
    Some (seen_through_queue T (fst (invoke T (Command n as kws) api)),
          after_execute T (Command n as kws) (fst (invoke T (Command n as kws) api))
            (snd (invoke T (Command n as kws) api)) s)"
proof -
  let ?c = "Command n as kws"
  let ?out = "fst (invoke T ?c api)"
  let ?l1 = "\<lparr>holder = Held_by_caller, history = history (exec_lock s) @ [Acquire 10 True]\<rparr>"
  let ?l2 = "\<lparr>holder = Unlocked, history = history (exec_lock s) @ [Acquire 10 True, Release]\<rparr>"
  let ?s1 = "s\<lparr>exec_lock := ?l1\<rparr>"
  let ?s2 = "?s1\<lparr>CmdQueue := enqueue ?c (CmdQueue ?s1)\<rparr>"
  let ?ack = "ack_for ?out"
  let ?s3 = "?s2\<lparr>CmdQueue := (CmdQueue ?s2)\<lparr>items := [], received := received (CmdQueue ?s2) @ [?c]\<rparr>,
        runner_process := Running (snd (invoke T ?c api)),
        CmdAckQueue := (CmdAckQueue ?s2)
          \<lparr>sent := sent (CmdAckQueue ?s2) @ [?ack],
           received := received (CmdAckQueue ?s2) @ [?ack]\<rparr>\<rparr>"
  have acq: "acquire (exec_lock s) 10 = (True, ?l1)"
    using q by (simp add: quiescent_def acquire_def acquire_holder_success)
  have putc: "CmdQueue_put ?c ?s1 = (Inr (), ?s2)"
    using q by (simp add: quiescent_def CmdQueue_put_def put_def)
  have getc: "CmdAckQueue_get T ?s2 =
      (case loads_ack T ?ack of Inl err \<Rightarrow> Some (Inl err, ?s3) | Inr a \<Rightarrow> Some (Inr a, ?s3))"
    using q r by (intro get_after_put) (simp_all add: quiescent_def enqueue_def)
  have body: "execute_body T n as kws True ?s1 = CmdAckQueue_get T ?s2"
    by (simp add: execute_body_def putc)
  have rel: "release (exec_lock ?s3) = Inr ?l2"
    by (simp add: release_def)
  have live: "is_alive s"
    using q by (simp add: quiescent_def is_alive_def)
  show ?thesis
  proof (cases "loads_ack T ?ack")
    case (Inl err)
    have guard: "acquire_with_timeout exec_lock exec_lock_update 10 (execute_body T n as kws) s =
        Some (Inl err, ?s3)"
      unfolding acquire_with_timeout_def acq
      by (simp only: Let_def prod.case body getc Inl option.case sum.case)
    obtain e frames where out: "?out = Raised e frames" and l: "loads_exn T e = Inl err"
      using Inl by (cases ?out) (auto simp: loads_ack_def split: sum.splits)
    show ?thesis
      unfolding execute_def guard
      using live q
      by (simp add: out l after_execute_def after_broken_call_def enqueue_def quiescent_def)
  next
    case (Inr a)
    have guard: "acquire_with_timeout exec_lock exec_lock_update 10 (execute_body T n as kws) s =
        Some (Inr a, ?s3\<lparr>exec_lock := ?l2\<rparr>)"
      unfolding acquire_with_timeout_def acq
      by (simp only: Let_def prod.case body getc Inr option.case sum.case if_True rel)
    show ?thesis
    proof (cases ?out)
      case (Returned v)
      then have a: "a = ack_for (Returned v)"
        using Inr by (simp add: loads_ack_def)
      show ?thesis
        unfolding execute_def guard
        using live q
        by (simp add: Returned a after_execute_def after_call_def enqueue_def quiescent_def)
    next
      case (Raised e frames)
      then obtain e' where l: "loads_exn T e = Inr e'"
        and a: "a = \<lparr>exception = Some e', stacktrace = format_exc frames e, result = PyNone\<rparr>"
        using Inr by (auto simp: loads_ack_def split: sum.splits)
      show ?thesis
        unfolding execute_def guard
        using live q
        by (simp add: Raised a l after_execute_def after_call_def enqueue_def quiescent_def)
    qed
  qed
qed



text \<open>
  When the constructor of the instance raised in the worker, the process is dead and
  the facade does not know: the command is put and the caller waits forever.
\<close>

lemma execute_blocks_without_worker:
  assumes "\<not> terminated s" "fst (acquire_holder (holder (exec_lock s)) 10)"
    "\<not> closed (CmdQueue s)" "\<not> closed (CmdAckQueue s)" "items (CmdAckQueue s) = []"
    "runner_process s = Stopped"
  shows "execute T n as kws s = None"
  using assms
  by (simp add: execute_def is_alive_def acquire_with_timeout_def acquire_def
      acquire_holder_success execute_body_def CmdQueue_put_def put_def CmdAckQueue_get_def
      runner_stopped dequeue_def)



lemma quiescent_init: "construct T p = Inr api \<Longrightarrow> quiescent (init T p)"
  by (simp add: quiescent_def init_def api_setup_def new_queue_def new_lock_def)

lemma example_init:
  "init example_api example_params =
     \<lparr>CmdQueue = new_queue, CmdAckQueue = new_queue, runner_process = Running 42,
      terminated = False, exec_lock = new_lock, stdout = []\<rparr>"
  by (simp add: init_def api_setup_def example_api_def)

lemma example_quiescent: "quiescent (init example_api example_params)"
  by (rule quiescent_init[of _ _ 42]) (simp add: example_api_def)

lemma example_running: "runner_process (init example_api example_params) = Running 42"
  by (simp add: example_init)

subsection \<open>The guard\<close>

text \<open>
  The two ways out of the guarded block after a successful acquisition. When the block
  returns, the guard releases the lock. When the block raises, the guard returns the
  state as the block left it: no release is made.
\<close>

lemma guard_releases_on_return:
  assumes "acquire (exec_lock s) t = (True, l1)"
    and "body True (s\<lparr>exec_lock := l1\<rparr>) = Some (Inr v, s2)"
    and "holder (exec_lock s2) \<noteq> Unlocked"
  shows "acquire_with_timeout exec_lock exec_lock_update t body s =
    Some (Inr v, s2\<lparr>exec_lock := \<lparr>holder = Unlocked, history = history (exec_lock s2) @ [Release]\<rparr>\<rparr>)"
  using assms by (simp add: acquire_with_timeout_def release_def)

lemma guard_skips_release_on_raise:
  assumes "acquire (exec_lock s) t = (True, l1)"
    and "body True (s\<lparr>exec_lock := l1\<rparr>) = Some (Inl e, s2)"
  shows "acquire_with_timeout exec_lock exec_lock_update t body s = Some (Inl e, s2)"
  using assms by (simp add: acquire_with_timeout_def)

text \<open>
  C1. The claim: whenever the guard acquired the lock, the lock is released when the
  guarded block exits, also when the block raises. The code does not do that. Evaluated
  here: a thread calls \<^verbatim>\<open>read_u32\<close> on the example facade while another thread is
  inside \<^verbatim>\<open>terminate\<close>, after the queues are closed and before the flag is set. The
  caller passes the liveness check and acquires the free lock; \<^verbatim>\<open>put\<close> raises
  ValueError inside the block; the call ends with that error and the lock is still held
  by the caller, with one acquisition and no release in its history.
\<close>

theorem execute_leaves_lock_held_when_put_raises:
  "execute example_api ''read_u32'' [] [] (stop_worker (init example_api example_params)) =
     Some (Inl (ValueError ''Queue is closed''),
           (stop_worker (init example_api example_params))
             \<lparr>exec_lock := \<lparr>holder = Held_by_caller, history = [Acquire 10 True]\<rparr>\<rparr>)"
  by (simp add: execute_def is_alive_def acquire_with_timeout_def acquire_def execute_body_def
      CmdQueue_put_def put_def close_def stop_worker_def example_init new_queue_def new_lock_def)

subsection \<open>After termination\<close>

text \<open>
  C3. A forwarding call on a terminated facade fails with the APIError
  "Runner process terminated, API is unavailable." and leaves the whole state as it was:
  nothing is put on the command queue, nothing is taken from the acknowledgement queue,
  and no call is made on the lock (its history is the same). This holds for
  \<^verbatim>\<open>_execute\<close> and for the call through \<^verbatim>\<open>__getattr__\<close> of a name of the class.
\<close>

theorem execute_after_terminate_unavailable:
  assumes "terminated s"
  shows "execute T n as kws s =
           Some (Inl (APIError ''Runner process terminated, API is unavailable.''), s) \<and>
         (n \<in> set (class_attrs T) \<longrightarrow>
            call_method T n as kws s =
              Some (Inl (APIError ''Runner process terminated, API is unavailable.''), s))"
  using assms by (simp add: execute_def is_alive_def call_method_def getattr_def)

theorem execute_after_terminate_unavailable_witness:
  "terminated (snd (terminate (init example_api example_params))) \<and>
   execute example_api ''read_u32'' [] [] (snd (terminate (init example_api example_params))) =
     Some (Inl (APIError ''Runner process terminated, API is unavailable.''),
           snd (terminate (init example_api example_params))) \<and>
   call_method example_api ''read_u32'' [] [] (snd (terminate (init example_api example_params))) =
     Some (Inl (APIError ''Runner process terminated, API is unavailable.''),
           snd (terminate (init example_api example_params)))"
proof -
  have t: "terminated (snd (terminate (init example_api example_params)))"
    by (simp add: terminate_def is_alive_def)
  have m: "''read_u32'' \<in> set (class_attrs example_api)"
    by (simp add: example_api_def)
  show ?thesis
    using t m execute_after_terminate_unavailable[OF t, of example_api "''read_u32''" "[]" "[]"]
    by simp
qed

text \<open>
  C7. \<^verbatim>\<open>terminate\<close> never raises; a second call returns normally and changes
  nothing; after one call, and after any number of further calls, the state is the one
  the first call left, and \<^verbatim>\<open>is_alive\<close> returns false in it.
\<close>

theorem terminate_idempotent:
  "fst (terminate s) = Inr () \<and>
   terminate (snd (terminate s)) = (Inr (), snd (terminate s)) \<and>
   is_alive (snd (terminate s)) = False \<and>
   ((\<lambda>s. snd (terminate s)) ^^ Suc k) s = snd (terminate s)"
proof -
  have a: "fst (terminate s) = Inr ()"
    by (simp add: terminate_def)
  have b: "terminate (snd (terminate s)) = (Inr (), snd (terminate s))"
    by (simp add: terminate_def is_alive_def)
  have c: "is_alive (snd (terminate s)) = False"
    by (simp add: terminate_def is_alive_def)
  have d: "((\<lambda>s. snd (terminate s)) ^^ Suc k) s = snd (terminate s)"
    by (induction k) (simp_all add: b)
  from a b c d show ?thesis by blast
qed

subsection \<open>Attribute access\<close>

text \<open>
  C10. For a name that the class \<^verbatim>\<open>API.API\<close> defines, \<^verbatim>\<open>__getattr__\<close> returns a
  callable and leaves the state as it was: no queue traffic, no call on the lock, no
  change of the flag. The callable is \<^verbatim>\<open>_execute\<close> with that name, so the remote
  call happens when the callable is invoked, and only then.
\<close>

theorem getattr_returns_callable_without_effect:
  assumes "n \<in> set (class_attrs T)"
  shows "getattr T n s = (Inr (execute T n), s) \<and>
         call_method T n as kws s = execute T n as kws s"
  using assms by (simp add: getattr_def call_method_def)

theorem getattr_returns_callable_without_effect_witness:
  "''read_u32'' \<in> set (class_attrs example_api) \<and>
   getattr example_api ''read_u32'' (init example_api example_params) =
     (Inr (execute example_api ''read_u32''), init example_api example_params) \<and>
   call_method example_api ''read_u32'' [] [] (init example_api example_params) =
     execute example_api ''read_u32'' [] [] (init example_api example_params)"
proof -
  have m: "''read_u32'' \<in> set (class_attrs example_api)"
    by (simp add: example_api_def)
  show ?thesis
    using m getattr_returns_callable_without_effect[OF m]
    by simp
qed

subsection \<open>Errors of the remote operation\<close>

text \<open>
  The same defect as in C1 on the other call of the guarded block: the worker raises a
  \<^verbatim>\<open>ProbeError\<close>, the acknowledgement arrives, its unpickling raises TypeError
  inside \<^verbatim>\<open>get()\<close>, and the call ends with the lock held.
\<close>

lemma execute_leaves_lock_held_when_get_raises:
  "execute example_api ''connect_to_emu_with_snr'' [] [] (init example_api example_params) =
     Some (Inl (Exn ''TypeError'' ''__init__() missing 1 required positional argument''),
           after_broken_call (Command ''connect_to_emu_with_snr'' [] [])
             (Raised (Exn ''ProbeError'' ''probe not found'') []) 42 (init example_api example_params))"
proof -
  have i: "invoke example_api (Command ''connect_to_emu_with_snr'' [] []) 42 =
      (Raised (Exn ''ProbeError'' ''probe not found'') [], 42)"
    by (simp add: invoke_def Command_def example_api_def)
  have l: "loads_exn example_api (Exn ''ProbeError'' ''probe not found'') =
      Inl (Exn ''TypeError'' ''__init__() missing 1 required positional argument'')"
    by (simp add: loads_exn_def python_exceptions_def example_api_def example_new_exception_def)
  show ?thesis
    by (simp add: execute_quiescent[OF example_quiescent example_running] i l after_execute_def)
qed

text \<open>
  C2. The claim: the caller sees the error of the worker again with the same kind and
  the same message. The message is not always the same. The acknowledgement travels
  pickled, and the error in it is rebuilt on the calling side by its class from its
  arguments. In the example \<^verbatim>\<open>recover\<close> raises a \<^verbatim>\<open>DeviceError\<close> with the message
  "An error was reported: -3."; the constructor of the class formats what it is given,
  and the caller gets a \<^verbatim>\<open>DeviceError\<close> with the message
  "An error was reported: An error was reported: -3..".
\<close>

theorem execute_changes_message_of_remote_error:
  "invoke example_api (Command ''recover'' [] []) 42 =
     (Raised (Exn ''DeviceError'' ''An error was reported: -3.'') [], 42) \<and>
   map_option fst (execute example_api ''recover'' [] [] (init example_api example_params)) =
     Some (Inl (Exn ''DeviceError'' ''An error was reported: An error was reported: -3..'')) \<and>
   ''An error was reported: An error was reported: -3..'' \<noteq> ''An error was reported: -3.''"
proof -
  have i: "invoke example_api (Command ''recover'' [] []) 42 =
      (Raised (Exn ''DeviceError'' ''An error was reported: -3.'') [], 42)"
    by (simp add: invoke_def Command_def example_api_def)
  have l: "loads_exn example_api (Exn ''DeviceError'' ''An error was reported: -3.'') =
      Inr (Exn ''DeviceError'' ''An error was reported: An error was reported: -3..'')"
    by (simp add: loads_exn_def python_exceptions_def example_api_def example_new_exception_def)
  show ?thesis
    by (simp add: execute_quiescent[OF example_quiescent example_running] i l)
qed

text \<open>
  C2 as amended. On a quiescent facade with a running worker, when the operation named
  by the call raises an error of kind \<open>K\<close> with message \<open>M\<close> in the worker (the lookup
  of the name included) and the class \<open>K\<close> builds the error \<open>e'\<close> from \<open>M\<close> when the
  acknowledgement is unpickled, \<^verbatim>\<open>_execute\<close> returns to its caller by raising \<open>e'\<close>.
  The error \<open>e'\<close> is of kind \<open>K\<close>, and its message is \<open>M\<close> when \<open>K\<close> is one of the
  exception classes of Python, whose constructor keeps its argument. The acknowledgement
  that the worker put carried the error and the trace that \<^verbatim>\<open>format_exc\<close> built in
  the worker; the trace is printed, as the one new line of the output, and is not what
  is raised. The lock is free after the call.
\<close>

theorem execute_reraises_rebuilt_remote_error:
  assumes "quiescent s"
    and "runner_process s = Running api"
    and "invoke T (Command n as kws) api = (Raised (Exn K M) frames, api')"
    and "loads_exn T (Exn K M) = Inr e'"
  shows "\<exists>s'. execute T n as kws s = Some (Inl e', s') \<and>
              kind e' = K \<and>
              (K \<in> set python_exceptions \<longrightarrow> e' = Exn K M) \<and>
              stdout s' = stdout s @ [format_exc frames (Exn K M)] \<and>
              sent (CmdAckQueue s') = sent (CmdAckQueue s) @
                [\<lparr>exception = Some (Exn K M), stacktrace = format_exc frames (Exn K M), result = PyNone\<rparr>] \<and>
              holder (exec_lock s') = Unlocked"
proof -
  have k: "kind e' = K"
    using kind_loads_exn[OF assms(4)] by simp
  have p: "K \<in> set python_exceptions \<longrightarrow> e' = Exn K M"
    using assms(4) by (auto simp: loads_exn_def)
  show ?thesis
    using execute_quiescent[OF assms(1,2), of T n as kws] assms(3,4) k p
    by (simp add: after_execute_def after_call_def)
qed

theorem execute_reraises_rebuilt_remote_error_witness:
  "quiescent (init example_api example_params) \<and>
   runner_process (init example_api example_params) = Running 42 \<and>
   invoke example_api (Command ''divide'' [PyInt 10, PyInt 0] []) 42 =
     (Raised (Exn ''ZeroDivisionError'' ''division by zero'') example_frames, 42) \<and>
   loads_exn example_api (Exn ''ZeroDivisionError'' ''division by zero'') =
     Inr (Exn ''ZeroDivisionError'' ''division by zero'') \<and>
   ''ZeroDivisionError'' \<in> set python_exceptions \<and>
   (\<exists>s'. execute example_api ''divide'' [PyInt 10, PyInt 0] [] (init example_api example_params) =
           Some (Inl (Exn ''ZeroDivisionError'' ''division by zero''), s') \<and>
         stdout s' = [format_exc example_frames (Exn ''ZeroDivisionError'' ''division by zero'')] \<and>
         holder (exec_lock s') = Unlocked) \<and>
   invoke example_api (Command ''recover'' [] []) 42 =
     (Raised (Exn ''DeviceError'' ''An error was reported: -3.'') [], 42) \<and>
   loads_exn example_api (Exn ''DeviceError'' ''An error was reported: -3.'') =
     Inr (Exn ''DeviceError'' ''An error was reported: An error was reported: -3..'') \<and>
   (\<exists>s'. execute example_api ''recover'' [] [] (init example_api example_params) =
           Some (Inl (Exn ''DeviceError'' ''An error was reported: An error was reported: -3..''), s') \<and>
         stdout s' = [format_exc [] (Exn ''DeviceError'' ''An error was reported: -3.'')])"
proof -
  have i1: "invoke example_api (Command ''divide'' [PyInt 10, PyInt 0] []) 42 =
      (Raised (Exn ''ZeroDivisionError'' ''division by zero'') example_frames, 42)"
    by (simp add: invoke_def Command_def example_api_def)
  have l1: "loads_exn example_api (Exn ''ZeroDivisionError'' ''division by zero'') =
      Inr (Exn ''ZeroDivisionError'' ''division by zero'')"
    by (simp add: loads_exn_def python_exceptions_def)
  have m1: "''ZeroDivisionError'' \<in> set python_exceptions"
    by (simp add: python_exceptions_def)
  have i2: "invoke example_api (Command ''recover'' [] []) 42 =
      (Raised (Exn ''DeviceError'' ''An error was reported: -3.'') [], 42)"
    by (simp add: invoke_def Command_def example_api_def)
  have l2: "loads_exn example_api (Exn ''DeviceError'' ''An error was reported: -3.'') =
      Inr (Exn ''DeviceError'' ''An error was reported: An error was reported: -3..'')"
    by (simp add: loads_exn_def python_exceptions_def example_api_def example_new_exception_def)
  have o: "stdout (init example_api example_params) = []"
    by (simp add: example_init)
  from execute_reraises_rebuilt_remote_error[OF example_quiescent example_running i1 l1]
  have a: "\<exists>s'. execute example_api ''divide'' [PyInt 10, PyInt 0] [] (init example_api example_params) =
           Some (Inl (Exn ''ZeroDivisionError'' ''division by zero''), s') \<and>
         stdout s' = [format_exc example_frames (Exn ''ZeroDivisionError'' ''division by zero'')] \<and>
         holder (exec_lock s') = Unlocked"
    using o by auto
  from execute_reraises_rebuilt_remote_error[OF example_quiescent example_running i2 l2]
  have b: "\<exists>s'. execute example_api ''recover'' [] [] (init example_api example_params) =
           Some (Inl (Exn ''DeviceError'' ''An error was reported: An error was reported: -3..''), s') \<and>
         stdout s' = [format_exc [] (Exn ''DeviceError'' ''An error was reported: -3.'')]"
    using o by auto
  show ?thesis
    using example_quiescent example_running i1 l1 m1 a i2 l2 b by blast
qed

subsection \<open>The lock held by another thread\<close>

text \<open>
  C4. On a live facade whose lock another thread holds and does not let go within 10
  time units, \<^verbatim>\<open>_execute\<close> fails with the TimeoutError. Both queues are as they were
  (no command was put, no acknowledgement was taken), the worker did nothing, and the
  only call made on the lock is the failed acquisition: no release. The lock is still
  with the other thread; the caller does not hold it.
\<close>

theorem execute_times_out_without_traffic:
  assumes "\<not> terminated s"
    and "holder (exec_lock s) = Held_externally r"
    and "r = None \<or> (\<exists>d. r = Some d \<and> 10 \<le> d)"
  shows "\<exists>s'. execute T n as kws s =
                Some (Inl (TimeoutError ''CmdQueue is full and was not cleared in 10 seconds!''), s') \<and>
              CmdQueue s' = CmdQueue s \<and> CmdAckQueue s' = CmdAckQueue s \<and>
              runner_process s' = runner_process s \<and> stdout s' = stdout s \<and>
              history (exec_lock s') = history (exec_lock s) @ [Acquire 10 False] \<and>
              holder (exec_lock s') = Held_externally (map_option (\<lambda>d. d - 10) r)"
  using assms
  by (auto simp: execute_def is_alive_def acquire_with_timeout_def acquire_def execute_body_def)

theorem execute_times_out_without_traffic_witness:
  "\<not> terminated ((init example_api example_params)\<lparr>exec_lock := \<lparr>holder = Held_externally (Some 25), history = []\<rparr>\<rparr>) \<and>
   (\<exists>s'. execute example_api ''read_u32'' [] []
            ((init example_api example_params)\<lparr>exec_lock := \<lparr>holder = Held_externally (Some 25), history = []\<rparr>\<rparr>) =
           Some (Inl (TimeoutError ''CmdQueue is full and was not cleared in 10 seconds!''), s') \<and>
         sent (CmdQueue s') = [] \<and> received (CmdAckQueue s') = [] \<and>
         history (exec_lock s') = [Acquire 10 False] \<and>
         holder (exec_lock s') = Held_externally (Some 15))"
proof -
  let ?s = "(init example_api example_params)\<lparr>exec_lock := \<lparr>holder = Held_externally (Some 25), history = []\<rparr>\<rparr>"
  have a: "\<not> terminated ?s"
    by (simp add: example_init)
  have b: "holder (exec_lock ?s) = Held_externally (Some 25)"
    by simp
  have c: "Some (25::nat) = None \<or> (\<exists>d. Some (25::nat) = Some d \<and> 10 \<le> d)"
    by simp
  from execute_times_out_without_traffic[OF a b c, of example_api "''read_u32''" "[]" "[]"]
  obtain s' where
    "execute example_api ''read_u32'' [] [] ?s =
       Some (Inl (TimeoutError ''CmdQueue is full and was not cleared in 10 seconds!''), s')"
    "CmdQueue s' = CmdQueue ?s" "CmdAckQueue s' = CmdAckQueue ?s"
    "history (exec_lock s') = history (exec_lock ?s) @ [Acquire 10 False]"
    "holder (exec_lock s') = Held_externally (map_option (\<lambda>d. d - 10) (Some 25))"
    by blast
  then show ?thesis
    using a by (intro conjI exI[of _ s']) (simp_all add: example_init new_queue_def)
qed

subsection \<open>The worker acknowledges every command\<close>

text \<open>
  C8. From a running worker, the loop takes every queued command out in the order of the
  queue and puts exactly one acknowledgement for each, in the same order: as many
  acknowledgements as commands, the \<open>i\<close>-th one carrying the value that the \<open>i\<close>-th
  operation returned, or the error it raised together with the trace of that error.
  An operation that raises does not end the loop: the worker is still running at the
  end, on the state that all the operations left, the commands after a failing one
  have been served as well, and the loop is blocked on the empty queue for the next
  command.
\<close>

theorem runner_acknowledges_every_command:
  assumes "runner_process s = Running api"
  shows "received (CmdQueue (runner T s)) = received (CmdQueue s) @ items (CmdQueue s) \<and>
         items (CmdQueue (runner T s)) = [] \<and>
         sent (CmdAckQueue (runner T s)) =
           sent (CmdAckQueue s) @ map ack_for (fst (invoke_all T (items (CmdQueue s)) api)) \<and>
         items (CmdAckQueue (runner T s)) =
           items (CmdAckQueue s) @ map ack_for (fst (invoke_all T (items (CmdQueue s)) api)) \<and>
         length (map ack_for (fst (invoke_all T (items (CmdQueue s)) api))) = length (items (CmdQueue s)) \<and>
         runner_process (runner T s) = Running (snd (invoke_all T (items (CmdQueue s)) api))"
  by (simp add: runner_all[OF assms] length_invoke_all)

theorem runner_acknowledges_every_command_witness:
  "runner_process
     ((init example_api example_params)
        \<lparr>CmdQueue := enqueue (Command ''read_u32'' [] [])
           (enqueue (Command ''divide'' [PyInt 10, PyInt 0] []) new_queue)\<rparr>) = Running 42 \<and>
   items (CmdAckQueue (runner example_api
     ((init example_api example_params)
        \<lparr>CmdQueue := enqueue (Command ''read_u32'' [] [])
           (enqueue (Command ''divide'' [PyInt 10, PyInt 0] []) new_queue)\<rparr>))) =
     [\<lparr>exception = Some (Exn ''ZeroDivisionError'' ''division by zero''),
       stacktrace = format_exc example_frames (Exn ''ZeroDivisionError'' ''division by zero''),
       result = PyNone\<rparr>,
      \<lparr>exception = None, stacktrace = [], result = PyInt 42\<rparr>] \<and>
   runner_process (runner example_api
     ((init example_api example_params)
        \<lparr>CmdQueue := enqueue (Command ''read_u32'' [] [])
           (enqueue (Command ''divide'' [PyInt 10, PyInt 0] []) new_queue)\<rparr>)) = Running 42"
proof -
  let ?s = "(init example_api example_params)
        \<lparr>CmdQueue := enqueue (Command ''read_u32'' [] [])
           (enqueue (Command ''divide'' [PyInt 10, PyInt 0] []) new_queue)\<rparr>"
  have r: "runner_process ?s = Running 42"
    by (simp add: example_init)
  have q: "items (CmdQueue ?s) = [Command ''divide'' [PyInt 10, PyInt 0] [], Command ''read_u32'' [] []]"
    by (simp add: enqueue_def new_queue_def)
  have a: "items (CmdAckQueue ?s) = []"
    by (simp add: example_init new_queue_def)
  have i: "invoke_all example_api [Command ''divide'' [PyInt 10, PyInt 0] [], Command ''read_u32'' [] []] 42 =
      ([Raised (Exn ''ZeroDivisionError'' ''division by zero'') example_frames, Returned (PyInt 42)], 42)"
    by (simp add: invoke_def Command_def example_api_def)
  show ?thesis
    using runner_acknowledges_every_command[OF r, of example_api] r
    unfolding q a i
    by simp
qed

subsection \<open>Calls of one thread are served in order\<close>






subsection \<open>Names the class defines and names the worker can call\<close>

text \<open>
  C5. The claim has two halves. The first holds: a name that the class \<^verbatim>\<open>API.API\<close>
  does not define is refused by \<^verbatim>\<open>__getattr__\<close> with AttributeError, with no
  traffic. The second, that every name the facade accepts is one the worker can resolve,
  does not: the facade asks \<^verbatim>\<open>hasattr(API.API, name)\<close>, which holds for every
  attribute of the class, and the worker looks the name up among the bound methods of
  its instance. In the example the class constant \<^verbatim>\<open>_DEFAULT_JLINK_SPEED_KHZ\<close> and
  the attribute \<^verbatim>\<open>mro\<close> pass the facade, are not keys of the worker's dictionary, and
  the call comes back as the KeyError of the worker's lookup.
\<close>

theorem facade_accepts_names_the_worker_cannot_resolve:
  "getattr example_api ''_DEFAULT_JLINK_SPEED_KHZ'' (init example_api example_params) =
     (Inr (execute example_api ''_DEFAULT_JLINK_SPEED_KHZ''), init example_api example_params) \<and>
   api_functions example_api ''_DEFAULT_JLINK_SPEED_KHZ'' = None \<and>
   map_option fst (call_method example_api ''_DEFAULT_JLINK_SPEED_KHZ'' [] [] (init example_api example_params)) =
     Some (Inl (KeyError ''_DEFAULT_JLINK_SPEED_KHZ'')) \<and>
   getattr example_api ''mro'' (init example_api example_params) =
     (Inr (execute example_api ''mro''), init example_api example_params) \<and>
   api_functions example_api ''mro'' = None \<and>
   map_option fst (call_method example_api ''mro'' [] [] (init example_api example_params)) =
     Some (Inl (KeyError ''mro''))"
proof -
  have i1: "invoke example_api (Command ''_DEFAULT_JLINK_SPEED_KHZ'' [] []) 42 =
      (Raised (KeyError ''_DEFAULT_JLINK_SPEED_KHZ'') [], 42)"
    by (simp add: invoke_def Command_def example_api_def)
  have i2: "invoke example_api (Command ''mro'' [] []) 42 = (Raised (KeyError ''mro'') [], 42)"
    by (simp add: invoke_def Command_def example_api_def)
  have e1: "map_option fst (execute example_api ''_DEFAULT_JLINK_SPEED_KHZ'' [] [] (init example_api example_params)) =
      Some (Inl (KeyError ''_DEFAULT_JLINK_SPEED_KHZ''))"
    by (simp add: execute_quiescent[OF example_quiescent example_running] i1 loads_KeyError
        after_execute_def)
  have e2: "map_option fst (execute example_api ''mro'' [] [] (init example_api example_params)) =
      Some (Inl (KeyError ''mro''))"
    by (simp add: execute_quiescent[OF example_quiescent example_running] i2 loads_KeyError
        after_execute_def)
  have g1: "getattr example_api ''_DEFAULT_JLINK_SPEED_KHZ'' (init example_api example_params) =
     (Inr (execute example_api ''_DEFAULT_JLINK_SPEED_KHZ''), init example_api example_params)"
    by (simp add: getattr_def example_api_def)
  have g2: "getattr example_api ''mro'' (init example_api example_params) =
     (Inr (execute example_api ''mro''), init example_api example_params)"
    by (simp add: getattr_def example_api_def)
  have a1: "api_functions example_api ''_DEFAULT_JLINK_SPEED_KHZ'' = None"
    by (simp add: example_api_def)
  have a2: "api_functions example_api ''mro'' = None"
    by (simp add: example_api_def)
  show ?thesis
    by (simp add: g1 g2 a1 a2 call_method_def e1 e2)
qed

text \<open>
  C5 as amended. A name that the class does not define: \<^verbatim>\<open>__getattr__\<close> raises
  AttributeError and the state is as it was, so the call on the facade fails before any
  traffic. A name that the class defines and that is a bound method of the worker's
  instance: the worker's lookup finds the method and calls it. A name that the class
  defines and that is not a bound method of the instance: the call is forwarded, the
  worker's lookup raises KeyError, and the caller gets that KeyError back through the
  acknowledgement, its trace printed, like any other failure of an operation.
\<close>

theorem getattr_refuses_unknown_names_only:
  "(n \<notin> set (class_attrs T) \<longrightarrow>
      getattr T n s =
        (Inl (AttributeError (quoted ''MultiAPI'' @ '' object has no attribute '' @ quoted n)), s) \<and>
      call_method T n as kws s =
        Some (Inl (AttributeError (quoted ''MultiAPI'' @ '' object has no attribute '' @ quoted n)), s)) \<and>
   (n \<in> set (class_attrs T) \<longrightarrow> api_functions T n = Some f \<longrightarrow>
      invoke T (Command n as kws) api = f as kws api) \<and>
   (n \<in> set (class_attrs T) \<longrightarrow> api_functions T n = None \<longrightarrow>
      quiescent s \<longrightarrow> runner_process s = Running api \<longrightarrow>
      (\<exists>s'. call_method T n as kws s = Some (Inl (KeyError n), s') \<and>
            sent (CmdQueue s') = sent (CmdQueue s) @ [Command n as kws] \<and>
            stdout s' = stdout s @ [format_exc [] (KeyError n)]))"
proof (intro conjI impI)
  assume "n \<notin> set (class_attrs T)"
  then show "getattr T n s =
      (Inl (AttributeError (quoted ''MultiAPI'' @ '' object has no attribute '' @ quoted n)), s)"
    by (simp add: getattr_def)
next
  assume "n \<notin> set (class_attrs T)"
  then show "call_method T n as kws s =
      Some (Inl (AttributeError (quoted ''MultiAPI'' @ '' object has no attribute '' @ quoted n)), s)"
    by (simp add: call_method_def getattr_def)
next
  assume "api_functions T n = Some f"
  then show "invoke T (Command n as kws) api = f as kws api"
    by (simp add: invoke_def Command_def)
next
  assume m: "n \<in> set (class_attrs T)" and u: "api_functions T n = None"
    and q: "quiescent s" and r: "runner_process s = Running api"
  have i: "invoke T (Command n as kws) api = (Raised (KeyError n) [], api)"
    using u by (simp add: invoke_def Command_def)
  have c: "call_method T n as kws s = execute T n as kws s"
    using m by (simp add: call_method_def getattr_def)
  show "\<exists>s'. call_method T n as kws s = Some (Inl (KeyError n), s') \<and>
            sent (CmdQueue s') = sent (CmdQueue s) @ [Command n as kws] \<and>
            stdout s' = stdout s @ [format_exc [] (KeyError n)]"
    unfolding c execute_quiescent[OF q r] i
    by (simp add: after_execute_def after_call_def loads_KeyError)
qed

theorem getattr_refuses_unknown_names_only_witness:
  "''no_such_method'' \<notin> set (class_attrs example_api) \<and>
   call_method example_api ''no_such_method'' [] [] (init example_api example_params) =
     Some (Inl (AttributeError (quoted ''MultiAPI'' @ '' object has no attribute '' @ quoted ''no_such_method'')),
           init example_api example_params) \<and>
   ''read_u32'' \<in> set (class_attrs example_api) \<and>
   api_functions example_api ''read_u32'' = Some example_read_u32 \<and>
   invoke example_api (Command ''read_u32'' [] []) 42 = example_read_u32 [] [] 42 \<and>
   ''mro'' \<in> set (class_attrs example_api) \<and>
   api_functions example_api ''mro'' = None \<and>
   quiescent (init example_api example_params) \<and>
   runner_process (init example_api example_params) = Running 42 \<and>
   (\<exists>s'. call_method example_api ''mro'' [] [] (init example_api example_params) =
           Some (Inl (KeyError ''mro''), s'))"
proof -
  have a: "''no_such_method'' \<notin> set (class_attrs example_api)"
    by (simp add: example_api_def)
  have b: "''read_u32'' \<in> set (class_attrs example_api)"
    by (simp add: example_api_def)
  have c: "api_functions example_api ''read_u32'' = Some example_read_u32"
    by (simp add: example_api_def)
  have d: "''mro'' \<in> set (class_attrs example_api)"
    by (simp add: example_api_def)
  have e: "api_functions example_api ''mro'' = None"
    by (simp add: example_api_def)
  show ?thesis
    using a b c d e example_quiescent example_running
      getattr_refuses_unknown_names_only[of "''no_such_method''" example_api
        "init example_api example_params" "[]" "[]"]
      getattr_refuses_unknown_names_only[of "''read_u32''" example_api _ _ _ example_read_u32 42]
      getattr_refuses_unknown_names_only[of "''mro''" example_api
        "init example_api example_params" "[]" "[]" _ 42]
    by blast
qed

subsection \<open>The flag\<close>

lemma terminated_CmdAckQueue_get:
  "CmdAckQueue_get T s = Some (r, s') \<Longrightarrow> terminated s' = terminated s"
  by (auto simp: CmdAckQueue_get_def Let_def terminated_runner
      split: if_splits option.splits sum.splits)

lemma terminated_execute_body:
  "execute_body T n as kws b s = Some (r, s') \<Longrightarrow> terminated s' = terminated s"
  by (auto simp: execute_body_def CmdQueue_put_def
      split: if_splits sum.splits dest: terminated_CmdAckQueue_get)

lemma terminated_guard:
  assumes "\<And>b s1 r1 s2. body b s1 = Some (r1, s2) \<Longrightarrow> terminated s2 = terminated s1"
    and "acquire_with_timeout exec_lock exec_lock_update t body s = Some (r, s')"
  shows "terminated s' = terminated s"
proof -
  obtain ok l1 where a: "acquire (exec_lock s) t = (ok, l1)"
    by (cases "acquire (exec_lock s) t")
  obtain r1 s2 where b: "body ok (s\<lparr>exec_lock := l1\<rparr>) = Some (r1, s2)"
    using assms(2) a by (auto simp: acquire_with_timeout_def split: option.splits)
  have "terminated s2 = terminated s"
    using assms(1)[OF b] by simp
  moreover have "terminated s' = terminated s2"
    using assms(2) a b
    by (auto simp: acquire_with_timeout_def split: sum.splits if_splits)
  ultimately show ?thesis by simp
qed

lemma terminated_execute:
  assumes "execute T n as kws s = Some (r, s')"
  shows "terminated s' = terminated s"
proof (cases "is_alive s")
  case False
  then show ?thesis using assms by (simp add: execute_def)
next
  case True
  then obtain ra sa where
    g: "acquire_with_timeout exec_lock exec_lock_update 10 (execute_body T n as kws) s = Some (ra, sa)"
    using assms by (auto simp: execute_def split: option.splits)
  have "terminated sa = terminated s"
    using terminated_execute_body g by (rule terminated_guard)
  moreover have "terminated s' = terminated sa"
    using assms True g by (auto simp: execute_def split: sum.splits option.splits if_splits)
  ultimately show ?thesis by simp
qed

lemma snd_getattr: "snd (getattr T n s) = s"
  by (simp add: getattr_def)

lemma terminated_call_method:
  "call_method T n as kws s = Some (r, s') \<Longrightarrow> terminated s' = terminated s"
  by (auto simp: call_method_def getattr_def split: if_splits dest: terminated_execute)

lemma terminated_enter: "enter T s = Some (r, s') \<Longrightarrow> terminated s' = terminated s"
  by (auto simp: enter_def split: option.splits sum.splits dest: terminated_call_method)

lemma exit_cases:
  assumes "exit T s = Some (r, s')"
  shows "(\<exists>e. call_method T ''close'' [] [] s = Some (Inl e, s')) \<or>
         (\<exists>v s1. call_method T ''close'' [] [] s = Some (Inr v, s1) \<and> (r, s') = terminate s1)"
  using assms by (auto simp: exit_def split: option.splits sum.splits)

lemma terminated_terminate: "terminated (snd (terminate s))"
  by (simp add: terminate_def is_alive_def)

lemma terminated_step_mono: "step T f s = Some s' \<Longrightarrow> terminated s \<Longrightarrow> terminated s'"
proof (cases f)
  case Exit
  assume a: "step T f s = Some s'" and t: "terminated s"
  from a Exit obtain r where e: "exit T s = Some (r, s')" by auto
  from exit_cases[OF e] show ?thesis
  proof
    assume "\<exists>e. call_method T ''close'' [] [] s = Some (Inl e, s')"
    then show ?thesis using t by (auto dest: terminated_call_method)
  next
    assume "\<exists>v s1. call_method T ''close'' [] [] s = Some (Inr v, s1) \<and> (r, s') = terminate s1"
    then obtain v s1 where "(r, s') = terminate s1" by blast
    then have "s' = snd (terminate s1)" by (metis snd_conv)
    then show ?thesis by (simp add: terminated_terminate)
  qed
qed (auto simp: snd_getattr terminated_terminate
      dest: terminated_execute terminated_call_method terminated_enter)

lemma terminated_run_mono: "run T fs s = Some s' \<Longrightarrow> terminated s \<Longrightarrow> terminated s'"
  by (induction fs arbitrary: s) (auto split: option.splits dest: terminated_step_mono)

text \<open>
  C9. The flag \<^verbatim>\<open>_terminated\<close> is false in the state that the constructor leaves.
  \<^verbatim>\<open>terminate\<close> leaves it true. Along any sequence of calls on the facade it never
  goes back from true to false, so \<^verbatim>\<open>is_alive\<close>, which is its negation, goes from
  true to false once at most. Attribute access, \<^verbatim>\<open>is_alive\<close>, \<^verbatim>\<open>_execute\<close>, a
  forwarded method call and \<^verbatim>\<open>__enter__\<close> leave the flag as it was; \<^verbatim>\<open>__exit__\<close>
  changes it only through the call of \<^verbatim>\<open>terminate\<close> that it makes.
\<close>

theorem terminated_flag_monotonic:
  "\<not> terminated (init T p) \<and> is_alive (init T p) \<and>
   terminated (snd (terminate s)) \<and> \<not> is_alive (snd (terminate s)) \<and>
   (run T fs s = Some s' \<longrightarrow> terminated s \<longrightarrow> terminated s') \<and>
   (run T fs s = Some s' \<longrightarrow> is_alive s' \<longrightarrow> is_alive s) \<and>
   (step T f s = Some s' \<longrightarrow> f \<noteq> Terminate \<longrightarrow> f \<noteq> Exit \<longrightarrow> terminated s' = terminated s) \<and>
   (step T Exit s = Some s' \<longrightarrow> terminated s' \<noteq> terminated s \<longrightarrow>
      (\<exists>v s1. call_method T ''close'' [] [] s = Some (Inr v, s1) \<and> s' = snd (terminate s1)))"
proof (intro conjI impI)
  show "\<not> terminated (init T p)" by (simp add: init_def)
  show "is_alive (init T p)" by (simp add: init_def is_alive_def)
  show "terminated (snd (terminate s))" by (rule terminated_terminate)
  show "\<not> is_alive (snd (terminate s))" by (simp add: is_alive_def terminated_terminate)
next
  assume "run T fs s = Some s'" "terminated s"
  then show "terminated s'" by (rule terminated_run_mono)
next
  assume "run T fs s = Some s'" "is_alive s'"
  then show "is_alive s" using terminated_run_mono[of T fs s s'] by (auto simp: is_alive_def)
next
  assume "step T f s = Some s'" "f \<noteq> Terminate" "f \<noteq> Exit"
  then show "terminated s' = terminated s"
    by (cases f)
       (auto simp: snd_getattr dest: terminated_execute terminated_call_method terminated_enter)
next
  assume a: "step T Exit s = Some s'" and n: "terminated s' \<noteq> terminated s"
  from a obtain r where e: "exit T s = Some (r, s')" by auto
  from exit_cases[OF e] show "\<exists>v s1. call_method T ''close'' [] [] s = Some (Inr v, s1) \<and> s' = snd (terminate s1)"
  proof
    assume "\<exists>e. call_method T ''close'' [] [] s = Some (Inl e, s')"
    then show ?thesis using n by (auto dest: terminated_call_method)
  next
    assume "\<exists>v s1. call_method T ''close'' [] [] s = Some (Inr v, s1) \<and> (r, s') = terminate s1"
    then obtain v s1 where c: "call_method T ''close'' [] [] s = Some (Inr v, s1)" and t: "(r, s') = terminate s1"
      by blast
    from t have "s' = snd (terminate s1)" by (metis snd_conv)
    with c show ?thesis by blast
  qed
qed

theorem terminated_flag_monotonic_witness:
  "run example_api [Call ''read_u32'' [] [], Is_alive] (snd (terminate (init example_api example_params))) =
     Some (snd (terminate (init example_api example_params))) \<and>
   terminated (snd (terminate (init example_api example_params))) \<and>
   run example_api [Execute ''read_u32'' [] [], Is_alive] (init example_api example_params) =
     Some (after_call (Command ''read_u32'' [] []) (Returned (PyInt 42)) 42 (init example_api example_params)) \<and>
   is_alive (after_call (Command ''read_u32'' [] []) (Returned (PyInt 42)) 42 (init example_api example_params)) \<and>
   is_alive (init example_api example_params) \<and>
   step example_api (Execute ''read_u32'' [] []) (init example_api example_params) =
     Some (after_call (Command ''read_u32'' [] []) (Returned (PyInt 42)) 42 (init example_api example_params)) \<and>
   Execute ''read_u32'' [] [] \<noteq> Terminate \<and> Execute ''read_u32'' [] [] \<noteq> Exit \<and>
   terminated (after_call (Command ''read_u32'' [] []) (Returned (PyInt 42)) 42 (init example_api example_params)) =
     terminated (init example_api example_params) \<and>
   step example_api Exit (init example_api example_params) =
     Some (snd (terminate (after_call (Command ''close'' [] []) (Returned PyNone) 42 (init example_api example_params)))) \<and>
   terminated (snd (terminate (after_call (Command ''close'' [] []) (Returned PyNone) 42 (init example_api example_params)))) \<noteq>
     terminated (init example_api example_params) \<and>
   call_method example_api ''close'' [] [] (init example_api example_params) =
     Some (Inr PyNone, after_call (Command ''close'' [] []) (Returned PyNone) 42 (init example_api example_params))"
proof -
  let ?s0 = "init example_api example_params"
  let ?st = "snd (terminate ?s0)"
  let ?s1 = "after_call (Command ''read_u32'' [] []) (Returned (PyInt 42)) 42 ?s0"
  let ?s2 = "after_call (Command ''close'' [] []) (Returned PyNone) 42 ?s0"
  have i1: "invoke example_api (Command ''read_u32'' [] []) 42 = (Returned (PyInt 42), 42)"
    by (simp add: invoke_def Command_def example_api_def)
  have i2: "invoke example_api (Command ''close'' [] []) 42 = (Returned PyNone, 42)"
    by (simp add: invoke_def Command_def example_api_def)
  have e1: "execute example_api ''read_u32'' [] [] ?s0 = Some (Inr (PyInt 42), ?s1)"
    by (simp add: execute_quiescent[OF example_quiescent example_running] i1 loads_KeyError
        after_execute_def)
  have e2: "execute example_api ''close'' [] [] ?s0 = Some (Inr PyNone, ?s2)"
    by (simp add: execute_quiescent[OF example_quiescent example_running] i2 loads_KeyError
        after_execute_def)
  have m: "''read_u32'' \<in> set (class_attrs example_api)" "''close'' \<in> set (class_attrs example_api)"
    by (simp_all add: example_api_def)
  have t: "terminated ?st"
    by (rule terminated_terminate)
  have c0: "call_method example_api ''read_u32'' [] [] ?st =
      Some (Inl (APIError ''Runner process terminated, API is unavailable.''), ?st)"
    using t m by (simp add: call_method_def getattr_def execute_def is_alive_def)
  have r0: "run example_api [Call ''read_u32'' [] [], Is_alive] ?st = Some ?st"
    by (simp add: c0)
  have r1: "run example_api [Execute ''read_u32'' [] [], Is_alive] ?s0 = Some ?s1"
    by (simp add: e1)
  have a1: "is_alive ?s1"
    by (simp add: is_alive_def after_call_def example_init)
  have st1: "step example_api (Execute ''read_u32'' [] []) ?s0 = Some ?s1"
    by (simp add: e1)
  have c2: "call_method example_api ''close'' [] [] ?s0 = Some (Inr PyNone, ?s2)"
    using m by (simp add: call_method_def getattr_def e2)
  have x: "step example_api Exit ?s0 = Some (snd (terminate ?s2))"
    by (simp add: exit_def c2)
  have n: "terminated (snd (terminate ?s2)) \<noteq> terminated ?s0"
    by (simp add: terminated_terminate example_init)
  show ?thesis
    using r0 t r1 a1 st1 x n c2
      terminated_flag_monotonic[of example_api example_params ?st
        "[Call ''read_u32'' [] [], Is_alive]" ?st "Execute ''read_u32'' [] []"]
      terminated_flag_monotonic[of example_api example_params ?s0
        "[Execute ''read_u32'' [] [], Is_alive]" ?s1 "Execute ''read_u32'' [] []"]
      terminated_flag_monotonic[of example_api example_params ?s0 "[]"
        "snd (terminate ?s2)" "Execute ''read_u32'' [] []"]
    by simp
qed


end
